theory Spec2Isabelle
  imports Complex_Main "HOL-Library.Sublist"
begin

section \<open>Quality gate (services/ai/agents/qa.ts)\<close>

text \<open>
  A JavaScript number: a finite double, an infinity (\<open>JSON.parse\<close> reads \<open>1e999\<close> as
  \<open>Infinity\<close>) or \<open>NaN\<close>. A finite double is kept as the real it denotes; comparing one
  with the constants 85 and 60 is exact. The QA result is the output of \<open>JSON.parse\<close> cast
  to \<open>QAResult\<close> without validation, so a field may hold a value that is not a number; in
  \<open><\<close> such a value counts as the number it converts to, which for a non-numeric string
  is \<open>NaN\<close>.
\<close>

datatype number = Finite real | PosInfinity | NegInfinity | NaN

text \<open>The operators \<open><\<close> and \<open>>=\<close> on numbers: both are false when an operand is \<open>NaN\<close>.\<close>

fun lt :: "number \<Rightarrow> number \<Rightarrow> bool" where
  "lt NaN y = False"
| "lt x NaN = False"
| "lt (Finite x) (Finite y) = (x < y)"
| "lt (Finite x) PosInfinity = True"
| "lt (Finite x) NegInfinity = False"
| "lt PosInfinity y = False"
| "lt NegInfinity NegInfinity = False"
| "lt NegInfinity y = True"

fun ge :: "number \<Rightarrow> number \<Rightarrow> bool" where
  "ge NaN y = False"
| "ge x NaN = False"
| "ge x y = (\<not> lt x y)"

text \<open>
  The object \<open>criteria_scores\<close> as \<open>Object.values\<close> sees it: its own properties in
  enumeration order. The interface \<open>CriteriaScores\<close> declares eight of them; the parsed
  object has whatever keys the response had.
\<close>

type_synonym CriteriaScores = "(string \<times> number) list"

record FrictionCheck =
  corporate_jargon :: "string list"
  hedge_words :: "string list"
  missing_ghost_text :: "string list"
  missing_validation :: "string list"
  dense_text_sections :: "string list"

datatype verdict = PASS | FAIL

record QAResult =
  result :: verdict
  score :: number
  criteria_scores :: CriteriaScores
  critical_issues :: "string list"
  issues :: "string list"
  recommendations :: "string list"
  friction_check :: FrictionCheck

text \<open>\<open>Object.values\<close>: the value of every property.\<close>

definition Object_values :: "CriteriaScores \<Rightarrow> number list" where
  "Object_values c = map snd c"

text \<open>\<open>Array.prototype.some\<close>.\<close>

definition some :: "'a list \<Rightarrow> ('a \<Rightarrow> bool) \<Rightarrow> bool" where
  "some xs p = list_ex p xs"

definition meetsPassThreshold :: "QAResult \<Rightarrow> bool" where
  "meetsPassThreshold r =
     (if lt (score r) (Finite 85) then False
      else let scores = Object_values (criteria_scores r) in
        if some scores (\<lambda>s. lt s (Finite 60)) then False
        else True)"

section \<open>Pipeline orchestrator (services/ai/pipeline.ts)\<close>

subsection \<open>Data\<close>

text \<open>
  A template literal is kept as the list of its pieces, literal text and interpolated
  numbers, so that no number formatting has to be fixed.
\<close>

datatype piece = S string | N number

type_synonym str = "piece list"

text \<open>A thrown value: an \<open>Error\<close> with its message, or any other value.\<close>

datatype exn = Error str | Thrown

record FileMetadata =
  filename :: string
  fileType :: string

record PipelineInput =
  jobId :: string
  sourceText :: string
  fileMetadata :: FileMetadata

datatype ToolCategory = b2b_product | b2b_service | b2c_product | b2c_service

fun category_str :: "ToolCategory \<Rightarrow> string" where
  "category_str b2b_product = ''b2b_product''"
| "category_str b2b_service = ''b2b_service''"
| "category_str b2c_product = ''b2c_product''"
| "category_str b2c_service = ''b2c_service''"

text \<open>
  Fields of \<open>SecretaryOutput\<close> whose names recur in \<open>ToolSpec.metadata\<close> carry the
  prefix \<open>sec_\<close>.
\<close>

record SecretaryOutput =
  tool_name :: string
  sec_slug :: string
  sec_category :: ToolCategory
  decision_type :: string
  target_audience :: string
  sec_tagline :: string
  key_requirements :: "string list"
  context_summary :: string
  estimated_questions :: number

record Question =
  question_id :: string
  question_label :: string
  required :: bool

record WizardStep =
  step_number :: number
  title :: string
  description :: string
  questions :: "Question list"

record ToolMetadata =
  name :: string
  slug :: string
  category :: string
  tagline :: string
  estimated_time :: string

text \<open>
  Of \<open>ToolSpec\<close> the orchestrator reads \<open>metadata\<close> and \<open>wizard_steps\<close>; the scoring,
  verdict and commitment sections are passed through to the agents unread and are left out.
\<close>

record ToolSpec =
  metadata :: ToolMetadata
  wizard_steps :: "WizardStep list"

text \<open>\<open>RevisionEntry\<close>; its fields carry the prefix \<open>rev_\<close>.\<close>

record RevisionEntry =
  rev_attempt :: nat
  rev_score :: number
  rev_passed :: bool
  rev_issues :: "string list"

record PipelineResult =
  success :: bool
  toolHtml :: "string option"
  toolName :: "string option"
  toolSlug :: "string option"
  toolDescription :: "string option"
  res_category :: "string option"
  qaReport :: "QAResult option"
  revisionCount :: nat
  revisionHistory :: "RevisionEntry list"
  spec :: "ToolSpec option"
  error :: "str option"

datatype PipelineStage =
  Initializing | Secretary | Builder | Template | Qa | Feedback | Complete | Failed

record PipelineProgress =
  stage :: PipelineStage
  message :: str
  attempt :: "nat option"
  maxAttempts :: "nat option"
  progress_score :: "number option"

record ConfigCheck =
  valid :: bool
  missing :: "string list"

subsection \<open>The agents and the run state\<close>

text \<open>
  The five agents call an external model. Each is a parameter of the orchestrator: a
  function of its arguments and of the state \<open>'w\<close> of the outside world that returns
  either the thrown value or the result, and the next state of the world.
  \<open>checkAIConfiguration\<close> reads the process environment only and is a value.
\<close>

record 'w agents =
  checkAIConfiguration :: ConfigCheck
  secretary :: "string \<Rightarrow> 'w \<Rightarrow> (exn + SecretaryOutput) \<times> 'w"
  builder :: "SecretaryOutput \<Rightarrow> string \<Rightarrow> 'w \<Rightarrow> (exn + ToolSpec) \<times> 'w"
  templateDecider :: "ToolSpec \<Rightarrow> 'w \<Rightarrow> (exn + string) \<times> 'w"
  qa :: "string \<Rightarrow> ToolSpec \<Rightarrow> 'w \<Rightarrow> (exn + QAResult) \<times> 'w"
  feedbackApplier :: "string \<Rightarrow> QAResult \<Rightarrow> nat \<Rightarrow> 'w \<Rightarrow> (exn + string) \<times> 'w"

text \<open>
  The trace of agent invocations, kept beside the program's own variables: which agent
  was called (for the loop's agents, in which attempt) and the value it threw, if any.
\<close>

datatype agent_call =
  CallSecretary | CallBuilder | CallTemplateDecider | CallQA nat | CallFeedbackApplier nat

fun thrown :: "exn + 'a \<Rightarrow> exn option" where
  "thrown (Inl e) = Some e"
| "thrown (Inr v) = None"

text \<open>
  The variables \<open>revisionHistory\<close> and \<open>revisionCount\<close> of \<open>runToolPipeline\<close> live
  outside its \<open>try\<close> block and survive a throw; \<open>emitted\<close> holds the events that
  \<open>progress\<close> has logged so far.
\<close>

record 'w run_state =
  var_revisionHistory :: "RevisionEntry list"
  var_revisionCount :: nat
  emitted :: "PipelineProgress list"
  calls :: "(agent_call \<times> exn option) list"
  world :: 'w

text \<open>
  A step of the body: from a state it yields a value or the thrown value, and the next
  state. \<open>and_then\<close> runs two steps in a row; a throw in the first skips the second.
\<close>

type_synonym ('w, 'a) step = "'w run_state \<Rightarrow> (exn + 'a) \<times> 'w run_state"

definition ret :: "'a \<Rightarrow> ('w, 'a) step" where
  "ret v s = (Inr v, s)"

definition throw :: "exn \<Rightarrow> ('w, 'a) step" where
  "throw e s = (Inl e, s)"

definition and_then :: "('w, 'a) step \<Rightarrow> ('a \<Rightarrow> ('w, 'b) step) \<Rightarrow> ('w, 'b) step" where
  "and_then m f s = (case m s of (Inl e, s') \<Rightarrow> (Inl e, s') | (Inr v, s') \<Rightarrow> f v s')"

text \<open>\<open>await\<close> of an agent: the call is entered in the trace with what it threw, if anything.\<close>

definition call :: "agent_call \<Rightarrow> ('w \<Rightarrow> (exn + 'a) \<times> 'w) \<Rightarrow> ('w, 'a) step" where
  "call c f s =
     (let r = f (world s)
      in (fst r, s\<lparr>calls := calls s @ [(c, thrown (fst r))], world := snd r\<rparr>))"

text \<open>
  The callback \<open>onProgress\<close> is supplied by the caller: called with an event in a state
  of the world, it returns normally (\<open>None\<close>) or throws.
\<close>

type_synonym 'w ProgressCallback = "PipelineProgress \<Rightarrow> 'w \<Rightarrow> exn option \<times> 'w"

text \<open>
  The helper \<open>progress\<close>: it hands the event to \<open>onProgress\<close>, if there is one, and then
  logs it. A throw of the callback leaves the helper before the log line.
\<close>

definition progress ::
  "'w ProgressCallback option \<Rightarrow> PipelineStage \<Rightarrow> str \<Rightarrow> nat option \<Rightarrow> nat option \<Rightarrow>
   number option \<Rightarrow> ('w, unit) step" where
  "progress onProgress st msg a m sc s =
     (let p = \<lparr>stage = st, message = msg, attempt = a, maxAttempts = m, progress_score = sc\<rparr>
      in case onProgress of
           None \<Rightarrow> (Inr (), s\<lparr>emitted := emitted s @ [p]\<rparr>)
         | Some callback \<Rightarrow>
             (let r = callback p (world s)
              in case fst r of
                   Some e \<Rightarrow> (Inl e, s\<lparr>world := snd r\<rparr>)
                 | None \<Rightarrow> (Inr (), s\<lparr>emitted := emitted s @ [p], world := snd r\<rparr>)))"

text \<open>A callback that never throws, or no callback.\<close>

definition returns_normally :: "'w ProgressCallback option \<Rightarrow> bool" where
  "returns_normally onProgress =
     (case onProgress of None \<Rightarrow> True | Some callback \<Rightarrow> (\<forall>p w. fst (callback p w) = None))"

fun verdict_str :: "verdict \<Rightarrow> string" where
  "verdict_str PASS = ''PASS''"
| "verdict_str FAIL = ''FAIL''"

text \<open>\<open>Array.prototype.join\<close>.\<close>

fun join :: "string \<Rightarrow> string list \<Rightarrow> string" where
  "join sep [] = []"
| "join sep [x] = x"
| "join sep (x # y # ys) = x @ sep @ join sep (y # ys)"

text \<open>A count or an attempt number as a number.\<close>

definition num :: "nat \<Rightarrow> number" where
  "num n = Finite (real n)"

subsection \<open>The quality-gate loop\<close>

text \<open>
  One iteration of \<open>for (let attempt = 1; attempt <= MAX_QA_RETRIES; attempt++)\<close>. Unless
  it throws, it ends with \<open>break\<close> (the gate passed) or falls through to the next
  iteration with the current HTML.
\<close>

datatype iteration = Break QAResult | Next string QAResult

definition loop_body ::
  "'w agents \<Rightarrow> 'w ProgressCallback option \<Rightarrow> nat \<Rightarrow> ToolSpec \<Rightarrow> nat \<Rightarrow> string \<Rightarrow>
   ('w, iteration) step" where
  "loop_body ag onProgress MAX_QA_RETRIES spc att html =
     and_then (\<lambda>s. (Inr (), s\<lparr>var_revisionCount := att\<rparr>)) (\<lambda>_.
     and_then (progress onProgress Qa [S ''Validating against 8-point criteria...'']
                 (Some att) (Some MAX_QA_RETRIES) None) (\<lambda>_.
     and_then (call (CallQA att) (qa ag html spc)) (\<lambda>qaResult.
     and_then (\<lambda>s. (Inr (), s\<lparr>var_revisionHistory := var_revisionHistory s @
                 [\<lparr>rev_attempt = att, rev_score = score qaResult,
                   rev_passed = (result qaResult = PASS),
                   rev_issues = take 5 (issues qaResult)\<rparr>]\<rparr>)) (\<lambda>_.
     and_then (progress onProgress Qa
                 [S ''Score: '', N (score qaResult), S ''/100 - '',
                  S (verdict_str (result qaResult))]
                 (Some att) (Some MAX_QA_RETRIES) (Some (score qaResult))) (\<lambda>_.
     if meetsPassThreshold qaResult then ret (Break qaResult)
     else if att < MAX_QA_RETRIES then
       and_then (progress onProgress Feedback
                   [S ''Applying fixes (attempt '', N (num att), S '' of '',
                    N (num MAX_QA_RETRIES), S '')...'']
                   (Some att) (Some MAX_QA_RETRIES) None) (\<lambda>_.
       and_then (call (CallFeedbackApplier att) (feedbackApplier ag html qaResult att)) (\<lambda>html'.
       and_then (progress onProgress Feedback [S ''Fixes applied, re-validating...'']
                   None None None) (\<lambda>_.
       ret (Next html' qaResult))))
     else ret (Next html qaResult))))))"

text \<open>
  The loop: the result is the thrown value, or \<open>passed\<close>, \<open>toolHtml\<close> and \<open>qaResult\<close>
  as they stand when the loop is left (\<open>qaResult\<close> is unassigned if no iteration ran).
\<close>

function qa_loop ::
  "'w agents \<Rightarrow> 'w ProgressCallback option \<Rightarrow> nat \<Rightarrow> ToolSpec \<Rightarrow> nat \<Rightarrow> string \<Rightarrow>
   QAResult option \<Rightarrow> ('w, bool \<times> string \<times> QAResult option) step" where
  "qa_loop ag onProgress MAX_QA_RETRIES spc att html qaResult s =
    (if att \<le> MAX_QA_RETRIES then
       (case loop_body ag onProgress MAX_QA_RETRIES spc att html s of
          (Inl e, s') \<Rightarrow> (Inl e, s')
        | (Inr (Break q), s') \<Rightarrow> (Inr (True, html, Some q), s')
        | (Inr (Next html' q), s') \<Rightarrow>
            qa_loop ag onProgress MAX_QA_RETRIES spc (att + 1) html' (Some q) s')
     else (Inr (False, html, qaResult), s))"
  by pat_completeness auto
termination
  by (relation "measure (\<lambda>(ag, cb, mx, spc, att, html, q, s). Suc mx - att)") auto

declare qa_loop.simps [simp del]

subsection \<open>runToolPipeline\<close>

definition undefined_score :: exn where
  "undefined_score =
     Error [S ''Cannot read properties of undefined (reading '', S [CHR 0x27], S ''score'',
            S [CHR 0x27], S '')'']"

text \<open>
  The \<open>try\<close> block up to the loop: the configuration check and stages 1 to 3. It yields
  \<open>spec\<close> and the first \<open>toolHtml\<close>, or the value thrown.
\<close>

definition upstream_stages ::
  "'w agents \<Rightarrow> 'w ProgressCallback option \<Rightarrow> PipelineInput \<Rightarrow> ('w, ToolSpec \<times> string) step" where
  "upstream_stages ag onProgress input =
     and_then (progress onProgress Initializing [S ''Checking AI configuration...'']
                 None None None) (\<lambda>_.
     let configCheck = checkAIConfiguration ag
     in if \<not> valid configCheck then
          throw (Error [S ''AI not configured: Missing '', S (join '', '' (missing configCheck))])
        else
     and_then (progress onProgress Secretary [S ''Understanding your request...'']
                 None None None) (\<lambda>_.
     and_then (call CallSecretary (secretary ag (sourceText input))) (\<lambda>secretaryOutput.
     and_then (progress onProgress Secretary
                 [S ''Identified: '', S [CHR 0x22], S (tool_name secretaryOutput), S [CHR 0x22],
                  S '' ('', S (category_str (sec_category secretaryOutput)), S '')'']
                 None None None) (\<lambda>_.
     and_then (progress onProgress Builder [S ''Creating tool specification...'']
                 None None None) (\<lambda>_.
     and_then (call CallBuilder (builder ag secretaryOutput (sourceText input))) (\<lambda>spc.
     let questionCount = foldl (\<lambda>sum step. sum + length (questions step)) 0 (wizard_steps spc)
     in
     and_then (progress onProgress Builder
                 [S ''Spec created: '', N (num (length (wizard_steps spc))), S '' steps, '',
                  N (num questionCount), S '' questions'']
                 None None None) (\<lambda>_.
     and_then (progress onProgress Template [S ''Building HTML...''] None None None) (\<lambda>_.
     and_then (call CallTemplateDecider (templateDecider ag spc)) (\<lambda>html0.
     and_then (progress onProgress Template
                 [S ''HTML generated ('', N (num ((length html0 + 512) div 1024)), S ''KB)'']
                 None None None) (\<lambda>_.
     ret (spc, html0)))))))))))"

text \<open>
  The \<open>try\<close> block after the loop. Both branches read \<open>qaResult!.score\<close>, which throws a
  \<open>TypeError\<close> when no iteration has assigned \<open>qaResult\<close>.
\<close>

definition result_block ::
  "'w ProgressCallback option \<Rightarrow> nat \<Rightarrow> ToolSpec \<Rightarrow> bool \<Rightarrow> string \<Rightarrow> QAResult option \<Rightarrow>
   ('w, PipelineResult) step" where
  "result_block onProgress MAX_QA_RETRIES spc passed html qaResult =
    (case qaResult of
       None \<Rightarrow> throw undefined_score
     | Some q \<Rightarrow>
        if passed then
          and_then (progress onProgress Complete
                      [S ''Tool generated successfully! Score: '', N (score q), S ''/100'']
                      None None None) (\<lambda>_ s.
          (Inr \<lparr>success = True, toolHtml = Some html,
                toolName = Some (name (metadata spc)),
                toolSlug = Some (slug (metadata spc)),
                toolDescription = Some (tagline (metadata spc)),
                res_category = Some (category (metadata spc)),
                qaReport = Some q,
                revisionCount = var_revisionCount s,
                revisionHistory = var_revisionHistory s,
                spec = Some spc, error = None\<rparr>, s))
        else
          (let failure =
                 [S ''Tool failed QA after '', N (num MAX_QA_RETRIES),
                  S '' attempts. Final score: '', N (score q), S ''/100'']
           in and_then (progress onProgress Failed failure None None None) (\<lambda>_ s.
              (Inr \<lparr>success = False, toolHtml = Some html,
                    toolName = Some (name (metadata spc)),
                    toolSlug = Some (slug (metadata spc)),
                    toolDescription = Some (tagline (metadata spc)),
                    res_category = Some (category (metadata spc)),
                    qaReport = Some q,
                    revisionCount = var_revisionCount s,
                    revisionHistory = var_revisionHistory s,
                    spec = Some spc, error = Some failure\<rparr>, s))))"

text \<open>
  The whole \<open>try\<close> block. \<open>MAX_QA_RETRIES\<close> is the module constant
  \<open>parseInt(process.env.AI_MAX_RETRIES || '3')\<close>; a value for which \<open>1 <= MAX_QA_RETRIES\<close>
  is false (zero, negative or NaN) behaves as \<open>0\<close> does here.
\<close>

definition try_block ::
  "'w agents \<Rightarrow> 'w ProgressCallback option \<Rightarrow> nat \<Rightarrow> PipelineInput \<Rightarrow>
   ('w, PipelineResult) step" where
  "try_block ag onProgress MAX_QA_RETRIES input =
     and_then (upstream_stages ag onProgress input) (\<lambda>(spc, html0).
     and_then (qa_loop ag onProgress MAX_QA_RETRIES spc 1 html0 None) (\<lambda>(passed, html, qaResult).
     result_block onProgress MAX_QA_RETRIES spc passed html qaResult))"

text \<open>\<open>error instanceof Error ? error.message : 'Unknown error'\<close>\<close>

fun message_of :: "exn \<Rightarrow> str" where
  "message_of (Error m) = m"
| "message_of Thrown = [S ''Unknown error'']"

text \<open>
  The \<open>catch\<close> block. It reports the failure through \<open>progress\<close> before it returns, so
  a throw of the callback there leaves \<open>runToolPipeline\<close>.
\<close>

definition catch_block :: "'w ProgressCallback option \<Rightarrow> exn \<Rightarrow> ('w, PipelineResult) step" where
  "catch_block onProgress e =
    (let errorMessage = message_of e
     in and_then (progress onProgress Failed (S ''Pipeline error: '' # errorMessage)
                    None None None) (\<lambda>_ s.
        (Inr \<lparr>success = False, toolHtml = None, toolName = None, toolSlug = None,
              toolDescription = None, res_category = None, qaReport = None,
              revisionCount = var_revisionCount s,
              revisionHistory = var_revisionHistory s,
              spec = None, error = Some errorMessage\<rparr>, s)))"

text \<open>The state on entry: \<open>revisionHistory = []\<close>, \<open>revisionCount = 0\<close>, nothing reported.\<close>

definition initial :: "'w \<Rightarrow> 'w run_state" where
  "initial w =
     \<lparr>var_revisionHistory = [], var_revisionCount = 0, emitted = [], calls = [], world = w\<rparr>"

text \<open>
  \<open>runToolPipeline(input, onProgress)\<close> started in the world \<open>w\<close>: what it returns
  (\<open>Inr\<close>) or throws to its caller (\<open>Inl\<close>), and the final state.
\<close>

definition runToolPipeline ::
  "'w agents \<Rightarrow> nat \<Rightarrow> PipelineInput \<Rightarrow> 'w ProgressCallback option \<Rightarrow> 'w \<Rightarrow>
   (exn + PipelineResult) \<times> 'w run_state" where
  "runToolPipeline ag MAX_QA_RETRIES input onProgress w =
    (case try_block ag onProgress MAX_QA_RETRIES input (initial w) of
        (Inr r, s) \<Rightarrow> (Inr r, s)
      | (Inl e, s) \<Rightarrow> catch_block onProgress e s)"

text \<open>
  What \<open>revisionCount\<close> and the length of \<open>revisionHistory\<close> are while a given call is
  running: stages 1 to 3 run before the loop; in attempt \<open>k\<close> the QA agent runs after
  \<open>revisionCount = k\<close> and before that attempt is recorded, the feedback applier after it.
\<close>

fun accumulated :: "agent_call \<Rightarrow> nat \<times> nat" where
  "accumulated CallSecretary = (0, 0)"
| "accumulated CallBuilder = (0, 0)"
| "accumulated CallTemplateDecider = (0, 0)"
| "accumulated (CallQA k) = (k, k - 1)"
| "accumulated (CallFeedbackApplier k) = (k, k)"

text \<open>A stretch of the trace in which every call returned.\<close>

definition quiet :: "(agent_call \<times> exn option) list \<Rightarrow> bool" where
  "quiet tr = list_all (\<lambda>c. snd c = None) tr"

section \<open>Template decider (services/ai/agents/templateDecider.ts)\<close>

text \<open>
  Strings are lists of 8-bit characters; of the code units that \<open>String.prototype.trim\<close>
  removes, these are the ones below 256: tab, line feed, vertical tab, form feed, carriage
  return, space and no-break space.
\<close>

definition isWhiteSpace :: "char \<Rightarrow> bool" where
  "isWhiteSpace c = (c \<in> set [CHR 0x09, CHR 0x0A, CHR 0x0B, CHR 0x0C, CHR 0x0D, CHR 0x20, CHR 0xA0])"

definition trim :: "string \<Rightarrow> string" where
  "trim s = rev (dropWhile isWhiteSpace (rev (dropWhile isWhiteSpace s)))"

definition startsWith :: "string \<Rightarrow> string \<Rightarrow> bool" where
  "startsWith s p = prefix p s"

text \<open>\<open>String.prototype.includes\<close>.\<close>

fun includes_str :: "string \<Rightarrow> string \<Rightarrow> bool" where
  "includes_str [] p = (p = [])"
| "includes_str (c # cs) p = (prefix p (c # cs) \<or> includes_str cs p)"

text \<open>
  A match of the regular expression \<open>```html?\n?\<close> at the head of the string: three
  backquotes and \<open>htm\<close>, then an \<open>l\<close> if there is one, then a line feed if there is
  one. The result is the rest of the string after the match.
\<close>

definition match_open_fence :: "string \<Rightarrow> string option" where
  "match_open_fence s =
     (if prefix ''```htm'' s then
        (let r1 = drop 6 s;
             r2 = (if prefix ''l'' r1 then drop 1 r1 else r1);
             r3 = (if prefix [CHR 0x0A] r2 then drop 1 r2 else r2)
         in Some r3)
      else None)"

text \<open>\<open>.replace(/```html?\n?/g, '')\<close>: every match, left to right, is removed.\<close>

function replace_open_fence :: "string \<Rightarrow> string" where
  "replace_open_fence [] = []"
| "replace_open_fence (c # cs) =
     (case match_open_fence (c # cs) of
        Some rest \<Rightarrow> replace_open_fence rest
      | None \<Rightarrow> c # replace_open_fence cs)"
  by pat_completeness auto
termination
  by (relation "measure length")
     (auto simp: match_open_fence_def Let_def split: if_splits)

text \<open>
  \<open>.replace(/```$/g, '')\<close>: without the \<open>m\<close> flag \<open>$\<close> matches at the end of the
  string only, so the one possible match is a final run of three backquotes.
\<close>

definition replace_closing_fence :: "string \<Rightarrow> string" where
  "replace_closing_fence s = (if suffix ''```'' s then take (length s - 3) s else s)"

text \<open>The clean-up of \<open>response.content\<close> (lines 170 to 175).\<close>

definition unwrap_markdown :: "string \<Rightarrow> string" where
  "unwrap_markdown content =
     (let html = trim content
      in if startsWith html ''```''
         then trim (replace_closing_fence (replace_open_fence html))
         else html)"

text \<open>
  \<open>runTemplateDecider\<close>; \<open>callAI\<close> stands for the call of the external model with the
  prompt built from \<open>spec\<close>, and yields \<open>response.content\<close> or throws.
\<close>

definition runTemplateDecider ::
  "(ToolSpec \<Rightarrow> 'w \<Rightarrow> (exn + string) \<times> 'w) \<Rightarrow> ToolSpec \<Rightarrow> 'w \<Rightarrow> (exn + string) \<times> 'w" where
  "runTemplateDecider callAI spc w =
     (case callAI spc w of
        (Inl e, w') \<Rightarrow> (Inl e, w')
      | (Inr content, w') \<Rightarrow>
         (let html = unwrap_markdown content
          in if \<not> startsWith html ''<!DOCTYPE html>'' \<and> \<not> startsWith html ''<html'' then
               (Inl (Error [S ''Template Decider did not return valid HTML'']), w')
             else if \<not> includes_str html ''</html>'' then
               (Inl (Error [S ''Template Decider returned incomplete HTML'']), w')
             else (Inr html, w')))"


section \<open>Jobs and the job state machine\<close>

text \<open>
  Modelled from the spec: \<open>models/job.ts\<close> (\<open>Job\<close>, \<open>JobStatus\<close>) is not among the sources.
  The statuses are those of the state diagram of the specification (section 4.2); its
  \<open>PROCESSING\<close> is the member that \<open>routes/generate.ts\<close> calls \<open>SENT\<close> ("Using SENT as
  PROCESSING equivalent"). A string enum member prints as its name.
\<close>

datatype JobStatus = DRAFT | SENT | READY_FOR_REVIEW | FACTORY_FAILED | APPROVED | REJECTED

fun status_str :: "JobStatus \<Rightarrow> string" where
  "status_str DRAFT = ''DRAFT''"
| "status_str SENT = ''SENT''"
| "status_str READY_FOR_REVIEW = ''READY_FOR_REVIEW''"
| "status_str FACTORY_FAILED = ''FACTORY_FAILED''"
| "status_str APPROVED = ''APPROVED''"
| "status_str REJECTED = ''REJECTED''"

text \<open>
  Modelled from the spec: the record has the fields of a job that \<open>routes/generate.ts\<close>
  and the tool generator read or write; \<open>callback_received_at\<close> is a time stamp.
\<close>

record Job =
  job_id :: string
  status :: JobStatus
  file_storage_key :: string
  file_type :: string
  original_filename :: string
  tool_id :: "string option"
  tool_html :: "string option"
  qa_status :: "verdict option"
  revision_count :: "nat option"
  callback_received_at :: "nat option"
  failure_reason :: "string option"

text \<open>
  Modelled from the spec: \<open>services/stateMachine.ts\<close> (\<open>ActorType\<close>, \<open>transitionJob\<close>) is not
  among the sources. The actors are those of the specification (section 3).
\<close>

datatype ActorType = BOSS | SYSTEM | AI

datatype TransitionError = TransitionError JobStatus JobStatus ActorType

text \<open>
  What \<open>transitionJob\<close> resolves to, as its callers read it: \<open>success\<close> with the new
  \<open>job\<close>, or failure with an \<open>error\<close>.
\<close>

datatype 'e TransitionResult = Accepted Job | Rejected 'e

text \<open>
  Modelled from the spec: the transition legality table of section 4.2, one entry for each
  row and allowed actor.
\<close>

definition transition_table :: "(JobStatus \<times> JobStatus \<times> ActorType) list" where
  "transition_table =
     [(DRAFT, SENT, SYSTEM),
      (SENT, READY_FOR_REVIEW, SYSTEM),
      (SENT, FACTORY_FAILED, SYSTEM),
      (READY_FOR_REVIEW, APPROVED, BOSS),
      (READY_FOR_REVIEW, SENT, BOSS),
      (READY_FOR_REVIEW, REJECTED, BOSS),
      (FACTORY_FAILED, SENT, BOSS),
      (FACTORY_FAILED, SENT, SYSTEM)]"

text \<open>
  Modelled from the spec: \<open>transitionJob\<close> of \<open>services/stateMachine.ts\<close>, which is not among
  the sources. A transition listed in the table yields the job with the new status; any
  other raises \<open>TransitionError{from, to, actor}\<close>.
\<close>

definition transitionJob :: "Job \<Rightarrow> JobStatus \<Rightarrow> ActorType \<Rightarrow> TransitionError TransitionResult" where
  "transitionJob job to actor =
     (if (status job, to, actor) \<in> set transition_table
      then Accepted (job\<lparr>status := to\<rparr>)
      else Rejected (TransitionError (status job) to actor))"

section \<open>Generation routes (routes/generate.ts)\<close>

text \<open>
  The server: the job store, and the job ids of the calls of \<open>generateTool\<close> that have been
  made and have not returned, one entry for each pipeline run in flight.
\<close>

record server =
  jobs :: "string \<rightharpoonup> Job"
  running :: "string list"

text \<open>
  Modelled from the spec: \<open>services/jobStore.ts\<close> is not among the sources; \<open>getJob\<close> and
  \<open>updateJob\<close> are the job registry interface of the specification (section 6), a store
  keyed by job id.
\<close>

definition getJob :: "server \<Rightarrow> string \<Rightarrow> Job option" where
  "getJob sv jid = jobs sv jid"

definition updateJob :: "Job \<Rightarrow> server \<Rightarrow> server" where
  "updateJob job sv = sv\<lparr>jobs := (jobs sv)(job_id job \<mapsto> job)\<rparr>"

text \<open>The values that occur in the JSON bodies; a field that is \<open>undefined\<close> is not sent.\<close>

datatype 'e json = JString string | JStrings "string list" | JError 'e | JUndefined

type_synonym 'e body = "(string \<times> 'e json) list"

fun optional :: "string option \<Rightarrow> 'e json" where
  "optional None = JUndefined"
| "optional (Some v) = JString v"

text \<open>
  What a handler has done to its response: the status and JSON body if it answered with
  \<open>res.status(..).json(..)\<close>, the server-sent events written with \<open>sendEvent\<close>, and whether
  the response has ended.
\<close>

record 'e response =
  answered :: "(nat \<times> 'e body) option"
  events :: "(string \<times> 'e body) list"
  ended :: bool

text \<open>
  \<open>generateToolAsync\<close> up to its \<open>await generateTool(job)\<close>: the call starts a pipeline run
  unless the job is gone.
\<close>

definition generateToolAsync :: "string \<Rightarrow> server \<Rightarrow> server" where
  "generateToolAsync jid sv =
     (case getJob sv jid of
        None \<Rightarrow> sv
      | Some job \<Rightarrow> sv\<lparr>running := running sv @ [job_id job]\<rparr>)"

text \<open>
  \<open>POST /:id/generate\<close>. The parameter \<open>transition\<close> is \<open>transitionJob\<close>, and \<open>readyCheck\<close>
  is the result of \<open>isGeneratorReady()\<close>, which is that of \<open>checkAIConfiguration()\<close>.
\<close>

definition post_generate ::
  "(Job \<Rightarrow> JobStatus \<Rightarrow> ActorType \<Rightarrow> 'e TransitionResult) \<Rightarrow> ConfigCheck \<Rightarrow> string \<Rightarrow> server \<Rightarrow>
   'e response \<times> server" where
  "post_generate transition readyCheck jid sv =
     (case getJob sv jid of
        None \<Rightarrow>
          (\<lparr>answered = Some (404, [(''error'', JString ''Job not found''), (''job_id'', JString jid)]),
            events = [], ended = True\<rparr>, sv)
      | Some job \<Rightarrow>
          if status job \<noteq> DRAFT then
            (\<lparr>answered = Some (409,
                 [(''error'', JString (''Cannot generate tool. Job status is '' @
                                       status_str (status job) @ '', expected DRAFT'')),
                  (''job_id'', JString jid),
                  (''current_status'', JString (status_str (status job)))]),
              events = [], ended = True\<rparr>, sv)
          else if \<not> valid readyCheck then
            (\<lparr>answered = Some (503,
                 [(''error'', JString ''AI providers not configured''),
                  (''missing'', JStrings (missing readyCheck))]),
              events = [], ended = True\<rparr>, sv)
          else
            (case transition job SENT SYSTEM of
               Rejected err \<Rightarrow>
                 (\<lparr>answered = Some (500,
                      [(''error'', JString ''Failed to update job status''),
                       (''details'', JError err)]),
                   events = [], ended = True\<rparr>, sv)
             | Accepted job' \<Rightarrow>
                 (\<lparr>answered = Some (202,
                      [(''message'', JString ''Tool generation started''),
                       (''job_id'', JString jid),
                       (''status'', JString (status_str SENT)),
                       (''stream_url'', JString (''/api/jobs/'' @ jid @ ''/generate/stream''))]),
                   events = [], ended = True\<rparr>,
                  generateToolAsync jid (updateJob job' sv))))"

text \<open>\<open>job.failure_reason || 'Tool generation failed'\<close>: an empty string is falsy too.\<close>

fun failure_text :: "string option \<Rightarrow> string" where
  "failure_text None = ''Tool generation failed''"
| "failure_text (Some r) = (if r = [] then ''Tool generation failed'' else r)"

fun qa_status_json :: "verdict option \<Rightarrow> 'e json" where
  "qa_status_json None = JUndefined"
| "qa_status_json (Some v) = JString (verdict_str v)"

text \<open>
  \<open>GET /:id/generate/stream\<close> up to its \<open>await generateTool(job, onProgress)\<close>. Where the
  handler reaches that call a pipeline run starts and the response stays open. The steps up
  to that call are taken as one: another request is served only once the handler waits for
  the run.
\<close>

definition stream_subscribe ::
  "(Job \<Rightarrow> JobStatus \<Rightarrow> ActorType \<Rightarrow> 'e TransitionResult) \<Rightarrow> string \<Rightarrow> server \<Rightarrow>
   'e response \<times> server" where
  "stream_subscribe transition jid sv =
     (case getJob sv jid of
        None \<Rightarrow>
          (\<lparr>answered = Some (404, [(''error'', JString ''Job not found''), (''job_id'', JString jid)]),
            events = [], ended = True\<rparr>, sv)
      | Some job \<Rightarrow>
          if status job = READY_FOR_REVIEW then
            (\<lparr>answered = None,
              events = [(''complete'',
                 [(''job_id'', JString jid), (''status'', JString ''complete''),
                  (''tool_name'', optional (tool_id job)),
                  (''qa_status'', qa_status_json (qa_status job))])],
              ended = True\<rparr>, sv)
          else if status job = FACTORY_FAILED then
            (\<lparr>answered = None,
              events = [(''failed'',
                 [(''job_id'', JString jid), (''status'', JString ''failed''),
                  (''error'', JString (failure_text (failure_reason job)))])],
              ended = True\<rparr>, sv)
          else
            (let sv1 = (if status job = DRAFT then
                          (case transition job SENT SYSTEM of
                             Accepted job' \<Rightarrow> updateJob job' sv
                           | Rejected err \<Rightarrow> sv)
                        else sv)
             in (\<lparr>answered = None,
                   events = [(''connected'',
                      [(''job_id'', JString jid), (''status'', JString ''connected''),
                       (''message'', JString ''Streaming tool generation progress...'')])],
                   ended = False\<rparr>,
                 sv1\<lparr>running := running sv1 @ [job_id job]\<rparr>)))"

text \<open>
  The pattern by which the routes apply a transition: the store is updated only if
  \<open>transitionResult.success\<close> holds.
\<close>

definition apply_transition ::
  "(Job \<Rightarrow> JobStatus \<Rightarrow> ActorType \<Rightarrow> 'e TransitionResult) \<Rightarrow> Job \<Rightarrow> JobStatus \<Rightarrow> ActorType \<Rightarrow>
   server \<Rightarrow> server" where
  "apply_transition transition job to actor sv =
     (case transition job to actor of
        Accepted job' \<Rightarrow> updateJob job' sv
      | Rejected err \<Rightarrow> sv)"


section \<open>Sample inputs\<close>

text \<open>The eight declared criteria; seven score \<open>x\<close>, \<open>gamification\<close> scores \<open>y\<close>.\<close>

definition sample_scores :: "real \<Rightarrow> real \<Rightarrow> CriteriaScores" where
  "sample_scores x y =
     [(''forces_decision'', Finite x), (''zero_instructions'', Finite x),
      (''easy_first_steps'', Finite x), (''instant_feedback'', Finite x),
      (''gamification'', Finite y), (''visible_results'', Finite x),
      (''commitment_capture'', Finite x), (''fast_track_dna'', Finite x)]"

text \<open>A QA report with the given label, overall score and criteria scores.\<close>

definition sample_report :: "verdict \<Rightarrow> number \<Rightarrow> real \<Rightarrow> real \<Rightarrow> QAResult" where
  "sample_report v overall x y =
     \<lparr>result = v, score = overall, criteria_scores = sample_scores x y,
      critical_issues = [], issues = [''No progress indicator''],
      recommendations = [''Add a progress bar''],
      friction_check = \<lparr>corporate_jargon = [], hedge_words = [], missing_ghost_text = [],
                        missing_validation = [], dense_text_sections = []\<rparr>\<rparr>"

definition sample_secretary :: SecretaryOutput where
  "sample_secretary =
     \<lparr>tool_name = ''Hiring Check'', sec_slug = ''hiring-check'', sec_category = b2b_service,
      decision_type = ''GO/NO-GO'', target_audience = ''Founders'',
      sec_tagline = ''Hire or wait'', key_requirements = [], context_summary = ''Hiring'',
      estimated_questions = Finite 5\<rparr>"

definition sample_spec :: ToolSpec where
  "sample_spec =
     \<lparr>metadata = \<lparr>name = ''Hiring Check'', slug = ''hiring-check'', category = ''b2b_service'',
                  tagline = ''Hire or wait'', estimated_time = ''5 min''\<rparr>,
      wizard_steps = []\<rparr>"

definition sample_input :: PipelineInput where
  "sample_input =
     \<lparr>jobId = ''job-1'', sourceText = ''Build a hiring tool'',
      fileMetadata = \<lparr>filename = ''brief.txt'', fileType = ''TXT''\<rparr>\<rparr>"

text \<open>
  Agents that always return: the QA agent returns the given report, the feedback applier a
  page that names its attempt.
\<close>

definition sample_agents :: "QAResult \<Rightarrow> unit agents" where
  "sample_agents report =
     \<lparr>checkAIConfiguration = \<lparr>valid = True, missing = []\<rparr>,
      secretary = (\<lambda>bossInput w. (Inr sample_secretary, w)),
      builder = (\<lambda>out src w. (Inr sample_spec, w)),
      templateDecider = (\<lambda>spc w. (Inr ''<html>0</html>'', w)),
      qa = (\<lambda>html spc w. (Inr report, w)),
      feedbackApplier =
        (\<lambda>html report n w. (Inr (if n = 1 then ''<html>1</html>'' else ''<html>2</html>''), w))\<rparr>"

text \<open>The same agents, with a QA agent that throws on every call.\<close>

definition qa_unavailable :: "unit agents" where
  "qa_unavailable =
     (sample_agents (sample_report FAIL (Finite 70) 70 70))
       \<lparr>qa := (\<lambda>html spc w. (Inl (Error [S ''QA failed to validate tool: Error: timeout'']), w))\<rparr>"

text \<open>
  A progress callback that writes to a connection that is gone by the time the failure is
  reported: it throws on the \<open>failed\<close> event.
\<close>

definition closed_sink :: "unit ProgressCallback" where
  "closed_sink p w =
     (if stage p = Failed then Some (Error [S ''write after end'']) else None, w)"

definition sample_job :: "JobStatus \<Rightarrow> Job" where
  "sample_job st =
     \<lparr>job_id = ''job-1'', status = st, file_storage_key = ''uploads/brief.txt'',
      file_type = ''TXT'', original_filename = ''brief.txt'', tool_id = None, tool_html = None,
      qa_status = None, revision_count = None, callback_received_at = None,
      failure_reason = None\<rparr>"

definition sample_server :: "JobStatus \<Rightarrow> server" where
  "sample_server st = \<lparr>jobs = [''job-1'' \<mapsto> sample_job st], running = []\<rparr>"

text \<open>A complete page inside a fence that names no language.\<close>

definition bare_fenced :: string where
  "bare_fenced =
     ''```'' @ [CHR 0x0A] @ ''<!DOCTYPE html><html></html>'' @ [CHR 0x0A] @ ''```''"


section \<open>The quality gate: properties\<close>

lemma lt_Finite [simp]:
  "lt x (Finite b) = (case x of Finite a \<Rightarrow> a < b | NegInfinity \<Rightarrow> True | _ \<Rightarrow> False)"
  by (cases x) simp_all

lemma ge_Finite [simp]:
  "ge x (Finite b) = (case x of Finite a \<Rightarrow> b \<le> a | PosInfinity \<Rightarrow> True | _ \<Rightarrow> False)"
  by (cases x) auto

text \<open>What the gate computes, for every QA result.\<close>

lemma meetsPassThreshold_iff:
  "meetsPassThreshold r \<longleftrightarrow>
     \<not> lt (score r) (Finite 85) \<and>
     (\<forall>v \<in> set (Object_values (criteria_scores r)). \<not> lt v (Finite 60))"
  by (auto simp: meetsPassThreshold_def some_def Let_def list_ex_iff)

text \<open>
  For a score other than \<open>NaN\<close> the criterion is the conjunction of \<open>score >= 85\<close> and
  no criterion below 60, over whatever criteria the object has.
\<close>

lemma meetsPassThreshold_conjunctive:
  assumes "score r \<noteq> NaN"
  shows "meetsPassThreshold r \<longleftrightarrow>
     ge (score r) (Finite 85) \<and>
     (\<forall>v \<in> set (Object_values (criteria_scores r)). \<not> lt v (Finite 60))"
  using assms by (cases "score r") (auto simp: meetsPassThreshold_iff)

lemma meetsPassThreshold_one_low_score:
  "score r = Finite 90 \<Longrightarrow> Finite 55 \<in> set (Object_values (criteria_scores r)) \<Longrightarrow>
   \<not> meetsPassThreshold r"
  by (force simp: meetsPassThreshold_iff)

lemma meetsPassThreshold_sample:
  "\<not> meetsPassThreshold (sample_report PASS (Finite 90) 95 55)"
  "meetsPassThreshold (sample_report PASS (Finite 90) 95 60)"
  "\<not> meetsPassThreshold
       ((sample_report PASS (Finite 90) 95 60)
          \<lparr>criteria_scores := sample_scores 95 60 @ [(''extra'', Finite 10)]\<rparr>)"
  by (simp_all add: meetsPassThreshold_iff sample_report_def sample_scores_def Object_values_def)

text \<open>
  Claim C5. A QA result passes if and only if its overall score is at least 85 and no
  sub-criterion score is below 60. The gate does not keep to this for a score that is
  \<open>NaN\<close>: the test \<open>result.score < 85\<close> is then false, so a result whose score is not
  at least 85 passes, although the comment on that test reads "Must have score >= 85".
\<close>

theorem meetsPassThreshold_NaN_score:
  "meetsPassThreshold (sample_report PASS NaN 90 90) \<and>
   \<not> ge (score (sample_report PASS NaN 90 90)) (Finite 85)"
  by (simp add: meetsPassThreshold_iff sample_report_def sample_scores_def Object_values_def)

text \<open>
  Claim C10. The decision of the gate depends on the fields \<open>score\<close> and \<open>criteria_scores\<close>
  only: two QA results that agree on both get the same decision. The label \<open>result\<close> of
  the QA agent is ignored: a result labelled \<open>PASS\<close> with a score below 85 fails the gate.
\<close>

theorem meetsPassThreshold_reads_scores_only:
  "(score a = score b \<and> criteria_scores a = criteria_scores b \<longrightarrow>
      meetsPassThreshold a = meetsPassThreshold b) \<and>
   (result a = PASS \<and> lt (score a) (Finite 85) \<longrightarrow> \<not> meetsPassThreshold a)"
  by (simp add: meetsPassThreshold_def)

theorem meetsPassThreshold_reads_scores_only_witness:
  "score (sample_report PASS (Finite 84) 90 90) = score (sample_report FAIL (Finite 84) 90 90) \<and>
   criteria_scores (sample_report PASS (Finite 84) 90 90) =
     criteria_scores (sample_report FAIL (Finite 84) 90 90) \<and>
   result (sample_report PASS (Finite 84) 90 90) = PASS \<and>
   lt (score (sample_report PASS (Finite 84) 90 90)) (Finite 85) \<and>
   result (sample_report FAIL (Finite 84) 90 90) \<noteq> result (sample_report PASS (Finite 84) 90 90) \<and>
   meetsPassThreshold (sample_report PASS (Finite 84) 90 90) =
     meetsPassThreshold (sample_report FAIL (Finite 84) 90 90) \<and>
   \<not> meetsPassThreshold (sample_report PASS (Finite 84) 90 90)"
  using meetsPassThreshold_reads_scores_only
          [of "sample_report PASS (Finite 84) 90 90" "sample_report FAIL (Finite 84) 90 90"]
  by (simp add: sample_report_def meetsPassThreshold_def)

section \<open>The generation routes: properties\<close>

lemma status_str_inj: "status_str a = status_str b \<Longrightarrow> a = b"
  by (cases a; cases b) simp_all

text \<open>
  Claim C7. A call to start generation for a job whose status is not \<open>DRAFT\<close> is answered
  with 409 Conflict and a body that names the job's current status; the server is left as
  it was: no transition is applied to the store and no pipeline run is started.
\<close>

theorem post_generate_conflict:
  assumes "getJob sv jid = Some job" and "status job \<noteq> DRAFT"
  shows "post_generate transition readyCheck jid sv =
     (\<lparr>answered = Some (409,
         [(''error'', JString (''Cannot generate tool. Job status is '' @
                               status_str (status job) @ '', expected DRAFT'')),
          (''job_id'', JString jid),
          (''current_status'', JString (status_str (status job)))]),
       events = [], ended = True\<rparr>, sv)"
  using assms by (simp add: post_generate_def)

theorem post_generate_conflict_witness:
  "getJob (sample_server SENT) ''job-1'' = Some (sample_job SENT) \<and>
   status (sample_job SENT) \<noteq> DRAFT \<and>
   post_generate transitionJob \<lparr>valid = True, missing = []\<rparr> ''job-1'' (sample_server SENT) =
     (\<lparr>answered = Some (409,
         [(''error'', JString ''Cannot generate tool. Job status is SENT, expected DRAFT''),
          (''job_id'', JString ''job-1''),
          (''current_status'', JString ''SENT'')]),
       events = [], ended = True\<rparr>, sample_server SENT)"
  using post_generate_conflict
          [of "sample_server SENT" "''job-1''" "sample_job SENT" transitionJob
              "\<lparr>valid = True, missing = []\<rparr>"]
  by (simp add: getJob_def sample_server_def sample_job_def)

text \<open>
  Claim C6, as the specification states it: a subscriber to the progress stream of a job
  already in a terminal status receives exactly one terminal event, the stream closes and
  no pipeline run is started. Of the four statuses that the specification calls terminal the
  handler knows two. For a job that is \<open>APPROVED\<close> (or \<open>REJECTED\<close>) it sends \<open>connected\<close>,
  keeps the response open and goes on to \<open>generateTool\<close>.
\<close>

theorem stream_subscribe_approved_not_terminal:
  "stream_subscribe transitionJob ''job-1'' (sample_server APPROVED) =
     (\<lparr>answered = None,
       events = [(''connected'',
          [(''job_id'', JString ''job-1''), (''status'', JString ''connected''),
           (''message'', JString ''Streaming tool generation progress...'')])],
       ended = False\<rparr>,
      \<lparr>jobs = [''job-1'' \<mapsto> sample_job APPROVED], running = [''job-1'']\<rparr>)"
  by (simp add: stream_subscribe_def getJob_def sample_server_def sample_job_def)

text \<open>
  Claim C6, amended. A subscriber to the progress stream of a job that is already
  \<open>READY_FOR_REVIEW\<close> or \<open>FACTORY_FAILED\<close> receives exactly one event, built from the stored
  job: \<open>complete\<close> for \<open>READY_FOR_REVIEW\<close>, \<open>failed\<close> for \<open>FACTORY_FAILED\<close>. The response
  then ends, and the server is left as it was: no pipeline run is started.
\<close>

theorem stream_subscribe_terminal:
  assumes "getJob sv jid = Some job"
      and "status job = READY_FOR_REVIEW \<or> status job = FACTORY_FAILED"
  shows "stream_subscribe transition jid sv =
     (\<lparr>answered = None,
       events =
         [if status job = READY_FOR_REVIEW then
            (''complete'',
             [(''job_id'', JString jid), (''status'', JString ''complete''),
              (''tool_name'', optional (tool_id job)),
              (''qa_status'', qa_status_json (qa_status job))])
          else
            (''failed'',
             [(''job_id'', JString jid), (''status'', JString ''failed''),
              (''error'', JString (failure_text (failure_reason job)))])],
       ended = True\<rparr>, sv)"
  using assms by (auto simp: stream_subscribe_def)

theorem stream_subscribe_terminal_witness:
  "getJob (sample_server FACTORY_FAILED) ''job-1'' = Some (sample_job FACTORY_FAILED) \<and>
   (status (sample_job FACTORY_FAILED) = READY_FOR_REVIEW \<or>
    status (sample_job FACTORY_FAILED) = FACTORY_FAILED) \<and>
   stream_subscribe transitionJob ''job-1'' (sample_server FACTORY_FAILED) =
     (\<lparr>answered = None,
       events = [(''failed'',
          [(''job_id'', JString ''job-1''), (''status'', JString ''failed''),
           (''error'', JString ''Tool generation failed'')])],
       ended = True\<rparr>, sample_server FACTORY_FAILED)"
  using stream_subscribe_terminal
          [of "sample_server FACTORY_FAILED" "''job-1''" "sample_job FACTORY_FAILED" transitionJob]
  by (simp add: getJob_def sample_server_def sample_job_def)

text \<open>
  A subscriber to a job that is neither finished nor \<open>DRAFT\<close>, such as one whose run is in
  flight, starts a run of its own, whatever the transition function.
\<close>

lemma stream_subscribe_in_progress:
  assumes "getJob sv jid = Some job"
      and "status job \<noteq> READY_FOR_REVIEW" and "status job \<noteq> FACTORY_FAILED"
      and "status job \<noteq> DRAFT"
  shows "snd (stream_subscribe transition jid sv) = sv\<lparr>running := running sv @ [job_id job]\<rparr>"
  using assms by (simp add: stream_subscribe_def)

text \<open>
  Claim C1. At most one pipeline run is in flight for a job id: a second subscriber to
  the progress stream must not start a second run. The routes do not keep to this. The
  first subscriber to the \<open>DRAFT\<close> job \<open>job-1\<close> moves it to \<open>SENT\<close> and starts a run; a second
  subscriber, arriving while that run is in flight, starts another. The same happens when
  the run was started by \<open>POST /:id/generate\<close> and the client then opens the stream that the
  answer points to.
\<close>

theorem stream_subscribe_second_run:
  "stream_subscribe transitionJob ''job-1'' (sample_server DRAFT) =
     (\<lparr>answered = None,
       events = [(''connected'',
          [(''job_id'', JString ''job-1''), (''status'', JString ''connected''),
           (''message'', JString ''Streaming tool generation progress...'')])],
       ended = False\<rparr>,
      \<lparr>jobs = [''job-1'' \<mapsto> sample_job SENT], running = [''job-1'']\<rparr>) \<and>
   snd (stream_subscribe transitionJob ''job-1''
          \<lparr>jobs = [''job-1'' \<mapsto> sample_job SENT], running = [''job-1'']\<rparr>) =
     \<lparr>jobs = [''job-1'' \<mapsto> sample_job SENT], running = [''job-1'', ''job-1'']\<rparr> \<and>
   snd (post_generate transitionJob \<lparr>valid = True, missing = []\<rparr> ''job-1'' (sample_server DRAFT)) =
     \<lparr>jobs = [''job-1'' \<mapsto> sample_job SENT], running = [''job-1'']\<rparr>"
  by (simp add: stream_subscribe_def post_generate_def generateToolAsync_def getJob_def
      updateJob_def sample_server_def sample_job_def transitionJob_def transition_table_def)

section \<open>The job state machine: properties\<close>

lemma transitionJob_accepts:
  "(status job, to, actor) \<in> set transition_table \<Longrightarrow>
   transitionJob job to actor = Accepted (job\<lparr>status := to\<rparr>)"
  by (simp add: transitionJob_def)

lemma transition_table_distinct: "distinct transition_table"
  by (simp add: transition_table_def)

text \<open>
  Claim C3. A transition \<open>(from, to, actor)\<close> that the table does not list is rejected
  with a \<open>TransitionError\<close> that carries \<open>from\<close>, \<open>to\<close> and \<open>actor\<close>; no changed job is
  produced, and a store to which the routes apply the result is left as it was.
\<close>

theorem transitionJob_rejects:
  assumes "(status job, to, actor) \<notin> set transition_table"
  shows "transitionJob job to actor = Rejected (TransitionError (status job) to actor) \<and>
         apply_transition transitionJob job to actor sv = sv"
  using assms by (simp add: transitionJob_def apply_transition_def)

theorem transitionJob_rejects_witness:
  "(status (sample_job DRAFT), APPROVED, AI) \<notin> set transition_table \<and>
   transitionJob (sample_job DRAFT) APPROVED AI = Rejected (TransitionError DRAFT APPROVED AI) \<and>
   apply_transition transitionJob (sample_job DRAFT) APPROVED AI (sample_server DRAFT) =
     sample_server DRAFT"
  using transitionJob_rejects [of "sample_job DRAFT" APPROVED AI "sample_server DRAFT"]
  by (simp add: transition_table_def sample_job_def)

section \<open>The template decider: properties\<close>

text \<open>
  A payload that does not start with \<open><!DOCTYPE html>\<close> or \<open><html\<close> after the clean-up is
  never returned: the agent throws.
\<close>

lemma runTemplateDecider_malformed:
  assumes "callAI spc w = (Inr content, w')"
      and "\<not> startsWith (unwrap_markdown content) ''<!DOCTYPE html>''"
      and "\<not> startsWith (unwrap_markdown content) ''<html''"
  shows "runTemplateDecider callAI spc w =
           (Inl (Error [S ''Template Decider did not return valid HTML'']), w')"
  using assms by (simp add: runTemplateDecider_def)

lemma runTemplateDecider_returns:
  assumes "runTemplateDecider callAI spc w = (Inr html, w')"
  shows "\<exists>content. callAI spc w = (Inr content, w') \<and> html = unwrap_markdown content \<and>
           (startsWith html ''<!DOCTYPE html>'' \<or> startsWith html ''<html'') \<and>
           includes_str html ''</html>''"
  using assms
  by (cases "callAI spc w")
     (auto simp: runTemplateDecider_def Let_def split: sum.splits if_splits)

text \<open>A fence that names the language \<open>html\<close> is removed.\<close>

lemma unwrap_markdown_html_fence:
  "unwrap_markdown
     (''```html'' @ [CHR 0x0A] @ ''<!DOCTYPE html><html></html>'' @ [CHR 0x0A] @ ''```'') =
   ''<!DOCTYPE html><html></html>''"
  by (simp add: unwrap_markdown_def trim_def isWhiteSpace_def startsWith_def
      replace_closing_fence_def match_open_fence_def Let_def suffix_to_prefix)

text \<open>
  Claim C8. The markdown code-fence markers around a raw response are stripped before the
  payload is validated. For a fence without a language tag they are not: the expression
  \<open>```html?\n?\<close> needs the letters \<open>htm\<close> after the backquotes, so the opening marker of
  \<open>bare_fenced\<close> stays, and the complete page inside it is refused as invalid HTML.
\<close>

theorem runTemplateDecider_bare_fence:
  "unwrap_markdown bare_fenced = ''```'' @ [CHR 0x0A] @ ''<!DOCTYPE html><html></html>'' \<and>
   runTemplateDecider (\<lambda>spc w. (Inr bare_fenced, w)) sample_spec () =
     (Inl (Error [S ''Template Decider did not return valid HTML'']), ())"
  by (simp add: runTemplateDecider_def unwrap_markdown_def bare_fenced_def trim_def
      isWhiteSpace_def startsWith_def replace_closing_fence_def match_open_fence_def Let_def
      suffix_to_prefix)


section \<open>The orchestrator: properties\<close>

subsection \<open>The trace of a run\<close>

lemma quiet_simps [simp]:
  "quiet []" "quiet (x # xs) = (snd x = None \<and> quiet xs)" "quiet (xs @ ys) = (quiet xs \<and> quiet ys)"
  by (auto simp: quiet_def)

lemma quiet_no_throw: "quiet tr \<Longrightarrow> (c, Some e) \<notin> set tr"
  by (auto simp: quiet_def list_all_iff)

lemma progress_state:
  "progress cb st msg a m sc s = (r, s') \<Longrightarrow>
   calls s' = calls s \<and> var_revisionCount s' = var_revisionCount s \<and>
   var_revisionHistory s' = var_revisionHistory s"
  by (auto simp: progress_def Let_def split: option.splits)

lemma progress_normal:
  "returns_normally cb \<Longrightarrow> \<exists>s'. progress cb st msg a m sc s = (Inr (), s')"
  by (auto simp: progress_def returns_normally_def Let_def split: option.splits)

lemma loop_body_trace:
  assumes "loop_body ag cb mx spc att html s = (r, s')"
      and "length (var_revisionHistory s) + 1 = att"
  shows "\<exists>post. calls s' = calls s @ post \<and> var_revisionCount s' = att \<and>
     (case r of
        Inl e \<Rightarrow> quiet post \<or>
                 (\<exists>pre c. post = pre @ [(c, Some e)] \<and> quiet pre \<and>
                      (c = CallQA att \<or> c = CallFeedbackApplier att \<and> att < mx) \<and>
                      length (var_revisionHistory s') = snd (accumulated c))
      | Inr it \<Rightarrow> quiet post \<and> length (var_revisionHistory s') = att)"
  using assms
  by (auto simp: loop_body_def and_then_def call_def ret_def Let_def
           split: sum.splits prod.splits if_splits dest!: progress_state)


lemma qa_loop_trace:
  "qa_loop ag cb mx spc att html q s = (r, s') \<Longrightarrow> length (var_revisionHistory s) + 1 = att \<Longrightarrow>
   \<exists>post. calls s' = calls s @ post \<and>
     (case r of
        Inl e \<Rightarrow> quiet post \<or>
                 (\<exists>pre c k. post = pre @ [(c, Some e)] \<and> quiet pre \<and>
                      (c = CallQA k \<or> c = CallFeedbackApplier k \<and> k < mx) \<and> k \<le> mx \<and>
                      var_revisionCount s' = k \<and>
                      length (var_revisionHistory s') = snd (accumulated c))
      | Inr v \<Rightarrow> quiet post)"
proof (induction ag cb mx spc att html q s arbitrary: r s' rule: qa_loop.induct)
  case (1 ag cb mx spc att html q s)
  show ?case
  proof (cases "att \<le> mx")
    case False
    with "1.prems" show ?thesis by (auto simp: qa_loop.simps)
  next
    case True
    obtain r1 s1 where lb: "loop_body ag cb mx spc att html s = (r1, s1)"
      by (cases "loop_body ag cb mx spc att html s")
    from loop_body_trace [OF lb "1.prems"(2)] obtain post1 where
      p1: "calls s1 = calls s @ post1" and
      c1: "(case r1 of
        Inl e \<Rightarrow> quiet post1 \<or>
                 (\<exists>pre c. post1 = pre @ [(c, Some e)] \<and> quiet pre \<and>
                      (c = CallQA att \<or> c = CallFeedbackApplier att \<and> att < mx) \<and>
                      length (var_revisionHistory s1) = snd (accumulated c))
      | Inr it \<Rightarrow> quiet post1 \<and> length (var_revisionHistory s1) = att)"
      and n1: "var_revisionCount s1 = att" by blast
    show ?thesis
    proof (cases r1)
      case (Inl e)
      with "1.prems" True lb have "r = Inl e" "s' = s1" by (auto simp: qa_loop.simps)
      with Inl p1 c1 n1 True show ?thesis by auto
    next
      case (Inr it)
      show ?thesis
      proof (cases it)
        case (Break q')
        with Inr "1.prems" True lb p1 c1 show ?thesis
          by (auto simp: qa_loop.simps)
      next
        case (Next h q')
        with Inr "1.prems" True lb
        have rec: "qa_loop ag cb mx spc (att + 1) h (Some q') s1 = (r, s')"
          by (simp add: qa_loop.simps)
        from Inr c1 have q1: "quiet post1" and l1: "length (var_revisionHistory s1) + 1 = att + 1"
          by simp_all
        from "1.IH" [OF True lb [symmetric] Inr Next rec l1] obtain post2 where
          p2: "calls s' = calls s1 @ post2" and
          c2: "(case r of
            Inl e \<Rightarrow> quiet post2 \<or>
                 (\<exists>pre c k. post2 = pre @ [(c, Some e)] \<and> quiet pre \<and>
                      (c = CallQA k \<or> c = CallFeedbackApplier k \<and> k < mx) \<and> k \<le> mx \<and>
                      var_revisionCount s' = k \<and>
                      length (var_revisionHistory s') = snd (accumulated c))
          | Inr v \<Rightarrow> quiet post2)" by blast
        show ?thesis
        proof (cases r)
          case (Inl e)
          with c2 have "quiet post2 \<or>
                 (\<exists>pre c k. post2 = pre @ [(c, Some e)] \<and> quiet pre \<and>
                      (c = CallQA k \<or> c = CallFeedbackApplier k \<and> k < mx) \<and> k \<le> mx \<and>
                      var_revisionCount s' = k \<and>
                      length (var_revisionHistory s') = snd (accumulated c))" by simp
          then show ?thesis
          proof
            assume "quiet post2"
            with p1 p2 q1 Inl show ?thesis by auto
          next
            assume "\<exists>pre c k. post2 = pre @ [(c, Some e)] \<and> quiet pre \<and>
                      (c = CallQA k \<or> c = CallFeedbackApplier k \<and> k < mx) \<and> k \<le> mx \<and>
                      var_revisionCount s' = k \<and>
                      length (var_revisionHistory s') = snd (accumulated c)"
            then obtain pre c k where "post2 = pre @ [(c, Some e)]" "quiet pre"
              "c = CallQA k \<or> c = CallFeedbackApplier k \<and> k < mx" "k \<le> mx"
              "var_revisionCount s' = k"
              "length (var_revisionHistory s') = snd (accumulated c)" by blast
            with p1 p2 q1 Inl show ?thesis
              by (intro exI [of _ "post1 @ post2"]) (auto intro!: exI [of _ "post1 @ pre"])
          qed
        next
          case (Inr v)
          with c2 p1 p2 q1 show ?thesis by auto
        qed
      qed
    qed
  qed
qed

lemma upstream_trace:
  assumes "upstream_stages ag cb input s = (r, s')"
  shows "\<exists>post. calls s' = calls s @ post \<and> var_revisionCount s' = var_revisionCount s \<and>
      var_revisionHistory s' = var_revisionHistory s \<and>
     (case r of
        Inl e \<Rightarrow> quiet post \<or> (\<exists>pre c. post = pre @ [(c, Some e)] \<and> quiet pre \<and>
                      (c = CallSecretary \<or> c = CallBuilder \<or> c = CallTemplateDecider))
      | Inr v \<Rightarrow> quiet post)"
  using assms
  by (auto simp: upstream_stages_def and_then_def call_def ret_def throw_def Let_def
           split: sum.splits prod.splits if_splits dest!: progress_state)

lemma result_block_state:
  "result_block cb mx spc passed html q s = (r, s') \<Longrightarrow> calls s' = calls s \<and>
    var_revisionCount s' = var_revisionCount s \<and> var_revisionHistory s' = var_revisionHistory s"
  by (auto simp: result_block_def and_then_def throw_def Let_def
           split: option.splits sum.splits prod.splits if_splits dest!: progress_state)


lemma try_block_trace:
  assumes "try_block ag cb mx input (initial w) = (r, s')"
  shows "case r of
        Inl e \<Rightarrow> quiet (calls s') \<or>
          (\<exists>pre c. calls s' = pre @ [(c, Some e)] \<and> quiet pre \<and>
             var_revisionCount s' = fst (accumulated c) \<and>
             length (var_revisionHistory s') = snd (accumulated c))
      | Inr v \<Rightarrow> quiet (calls s')"
proof -
  let ?s = "initial w"
  have init: "calls ?s = []" "var_revisionCount ?s = 0" "var_revisionHistory ?s = []"
    by (simp_all add: initial_def)
  obtain r1 s1 where up: "upstream_stages ag cb input ?s = (r1, s1)"
    by (cases "upstream_stages ag cb input ?s")
  from upstream_trace [OF up] init obtain post1 where p1: "calls s1 = post1"
    and n1: "var_revisionCount s1 = 0" and h1: "var_revisionHistory s1 = []"
    and c1: "(case r1 of
        Inl e \<Rightarrow> quiet post1 \<or> (\<exists>pre c. post1 = pre @ [(c, Some e)] \<and> quiet pre \<and>
                      (c = CallSecretary \<or> c = CallBuilder \<or> c = CallTemplateDecider))
      | Inr v \<Rightarrow> quiet post1)" by auto
  show ?thesis
  proof (cases r1)
    case (Inl e)
    with assms up have "r = Inl e" "s' = s1" by (auto simp: try_block_def and_then_def)
    with Inl c1 p1 n1 h1 show ?thesis by auto
  next
    case (Inr v)
    obtain spc html0 where v: "v = (spc, html0)" by (cases v)
    obtain r2 s2 where lp: "qa_loop ag cb mx spc 1 html0 None s1 = (r2, s2)"
      by (cases "qa_loop ag cb mx spc 1 html0 None s1")
    from Inr c1 p1 have q1: "quiet (calls s1)" by simp
    from h1 have "length (var_revisionHistory s1) + 1 = 1" by simp
    from qa_loop_trace [OF lp this] obtain post2 where p2: "calls s2 = calls s1 @ post2"
      and c2: "(case r2 of
        Inl e \<Rightarrow> quiet post2 \<or>
                 (\<exists>pre c k. post2 = pre @ [(c, Some e)] \<and> quiet pre \<and>
                      (c = CallQA k \<or> c = CallFeedbackApplier k \<and> k < mx) \<and> k \<le> mx \<and>
                      var_revisionCount s2 = k \<and>
                      length (var_revisionHistory s2) = snd (accumulated c))
      | Inr v \<Rightarrow> quiet post2)" by blast
    show ?thesis
    proof (cases r2)
      case (Inl e)
      with assms up Inr v lp have "r = Inl e" "s' = s2"
        by (auto simp: try_block_def and_then_def)
      with Inl c2 p2 q1 show ?thesis
        by (auto intro: exI [of _ "calls s1 @ pre" for pre])
    next
      case (Inr u)
      obtain passed html q where u: "u = (passed, html, q)" by (cases u)
      from assms up \<open>r1 = Inr v\<close> v lp Inr u
      have rb: "result_block cb mx spc passed html q s2 = (r, s')"
        by (auto simp: try_block_def and_then_def)
      from result_block_state [OF rb] Inr c2 p2 q1 have qs: "quiet (calls s')" by simp
      then show ?thesis by (cases r) auto
    qed
  qed
qed

text \<open>The \<open>catch\<close> block: it throws exactly when its report of the failure does.\<close>

lemma catch_block_state:
  "catch_block cb e s = (r, s') \<Longrightarrow> calls s' = calls s \<and>
     var_revisionCount s' = var_revisionCount s \<and> var_revisionHistory s' = var_revisionHistory s"
  by (auto simp: catch_block_def and_then_def Let_def split: sum.splits prod.splits
           dest!: progress_state)

lemma catch_block_returns:
  assumes "fst (catch_block cb e s) = Inr r"
  shows "r = \<lparr>success = False, toolHtml = None, toolName = None, toolSlug = None,
              toolDescription = None, res_category = None, qaReport = None,
              revisionCount = var_revisionCount s,
              revisionHistory = var_revisionHistory s,
              spec = None, error = Some (message_of e)\<rparr>"
  using assms
  by (auto simp: catch_block_def and_then_def Let_def split: sum.splits prod.splits
           dest!: progress_state)

lemma catch_block_throws:
  "fst (catch_block cb e s) = Inl e' \<longleftrightarrow>
   fst (progress cb Failed (S ''Pipeline error: '' # message_of e) None None None s) = Inl e'"
  by (auto simp: catch_block_def and_then_def Let_def split: sum.splits prod.splits)

lemma catch_block_normal:
  "returns_normally cb \<Longrightarrow> \<exists>r. fst (catch_block cb e s) = Inr r"
  using progress_normal [of cb Failed "S ''Pipeline error: '' # message_of e" None None None s]
  by (auto simp: catch_block_def and_then_def Let_def)

text \<open>A call that threw is the last call of the run, and the run ends in the \<open>catch\<close> block.\<close>

lemma run_thrown:
  assumes "(c, Some e) \<in> set (calls (snd (runToolPipeline ag mx input cb w)))"
  shows "\<exists>s. try_block ag cb mx input (initial w) = (Inl e, s) \<and>
             runToolPipeline ag mx input cb w = catch_block cb e s \<and>
             last (calls s) = (c, Some e) \<and>
             var_revisionCount s = fst (accumulated c) \<and>
             length (var_revisionHistory s) = snd (accumulated c)"
proof -
  obtain r s where tb: "try_block ag cb mx input (initial w) = (r, s)"
    by (cases "try_block ag cb mx input (initial w)")
  note tc = try_block_trace [OF tb]
  show ?thesis
  proof (cases r)
    case (Inr v)
    with tb have "calls (snd (runToolPipeline ag mx input cb w)) = calls s"
      by (simp add: runToolPipeline_def)
    with tc Inr assms quiet_no_throw show ?thesis by fastforce
  next
    case (Inl e')
    with tb have run: "runToolPipeline ag mx input cb w = catch_block cb e' s"
      by (simp add: runToolPipeline_def)
    have cs: "calls (snd (runToolPipeline ag mx input cb w)) = calls s"
      using catch_block_state [of cb e' s] run by (cases "catch_block cb e' s") auto
    from tc Inl have "quiet (calls s) \<or>
          (\<exists>pre c. calls s = pre @ [(c, Some e')] \<and> quiet pre \<and>
             var_revisionCount s = fst (accumulated c) \<and>
             length (var_revisionHistory s) = snd (accumulated c))"
      by simp
    then show ?thesis
    proof
      assume "quiet (calls s)"
      with cs assms quiet_no_throw show ?thesis by fastforce
    next
      assume "\<exists>pre c. calls s = pre @ [(c, Some e')] \<and> quiet pre \<and>
             var_revisionCount s = fst (accumulated c) \<and>
             length (var_revisionHistory s) = snd (accumulated c)"
      then obtain pre c' where pc: "calls s = pre @ [(c', Some e')]" "quiet pre"
        "var_revisionCount s = fst (accumulated c')"
        "length (var_revisionHistory s) = snd (accumulated c')" by blast
      with cs assms quiet_no_throw [OF pc(2)] have "c' = c \<and> e' = e" by auto
      with pc Inl tb run show ?thesis by auto
    qed
  qed
qed

lemma run_returns:
  "returns_normally cb \<Longrightarrow> \<exists>r. fst (runToolPipeline ag mx input cb w) = Inr r"
  using catch_block_normal [of cb]
  by (cases "try_block ag cb mx input (initial w)")
     (auto simp: runToolPipeline_def split: sum.splits)

lemma run_throws:
  assumes "fst (runToolPipeline ag mx input cb w) = Inl e'"
  shows "\<exists>e s. try_block ag cb mx input (initial w) = (Inl e, s) \<and>
           fst (progress cb Failed (S ''Pipeline error: '' # message_of e) None None None s) = Inl e'"
  using assms
  by (cases "try_block ag cb mx input (initial w)")
     (auto simp: runToolPipeline_def catch_block_throws split: sum.splits)











text \<open>
  The run in which the QA agent throws in the first of three attempts: without a callback,
  and with one that throws on the \<open>failed\<close> event.
\<close>

lemma qa_unavailable_run:
  "fst (runToolPipeline qa_unavailable 3 sample_input None ()) =
     Inr \<lparr>success = False, toolHtml = None, toolName = None, toolSlug = None,
          toolDescription = None, res_category = None, qaReport = None,
          revisionCount = 1, revisionHistory = [], spec = None,
          error = Some [S ''QA failed to validate tool: Error: timeout'']\<rparr>"
  "calls (snd (runToolPipeline qa_unavailable 3 sample_input None ())) =
     [(CallSecretary, None), (CallBuilder, None), (CallTemplateDecider, None),
      (CallQA 1, Some (Error [S ''QA failed to validate tool: Error: timeout'']))]"
  "fst (try_block qa_unavailable None 3 sample_input (initial ())) =
     Inl (Error [S ''QA failed to validate tool: Error: timeout''])"
  by (simp_all add: runToolPipeline_def try_block_def upstream_stages_def initial_def progress_def
      and_then_def call_def ret_def throw_def Let_def qa_unavailable_def sample_agents_def
      qa_loop.simps [of _ _ _ _ "Suc 0"] loop_body_def catch_block_def)

lemma qa_unavailable_closed_sink_run:
  "fst (runToolPipeline qa_unavailable 3 sample_input (Some closed_sink) ()) =
     Inl (Error [S ''write after end''])"
  "calls (snd (runToolPipeline qa_unavailable 3 sample_input (Some closed_sink) ())) =
     [(CallSecretary, None), (CallBuilder, None), (CallTemplateDecider, None),
      (CallQA 1, Some (Error [S ''QA failed to validate tool: Error: timeout'']))]"
  by (simp_all add: runToolPipeline_def try_block_def upstream_stages_def initial_def progress_def
      and_then_def call_def ret_def throw_def Let_def qa_unavailable_def sample_agents_def
      qa_loop.simps [of _ _ _ _ "Suc 0"] loop_body_def catch_block_def closed_sink_def)

subsection \<open>The quality-gate loop with a gate that always fails\<close>



subsection \<open>A stage error in the loop\<close>




subsection \<open>Exceptions and the caller\<close>

text \<open>
  Claim C9, as stated: for every input and every exception thrown by a stage,
  \<open>runToolPipeline\<close> returns a failed result and never propagates an exception to its
  caller. The progress callback is part of the input, and the \<open>catch\<close> clause calls it
  unguarded. With a QA agent that throws and a callback that throws on the \<open>failed\<close>
  event, the exception of the callback leaves \<open>runToolPipeline\<close> and no result is returned.
\<close>

theorem runToolPipeline_callback_error_propagates:
  "fst (runToolPipeline qa_unavailable 3 sample_input (Some closed_sink) ()) =
     Inl (Error [S ''write after end'']) \<and>
   last (calls (snd (runToolPipeline qa_unavailable 3 sample_input (Some closed_sink) ()))) =
     (CallQA 1, Some (Error [S ''QA failed to validate tool: Error: timeout'']))"
  by (simp add: qa_unavailable_closed_sink_run)

text \<open>
  Claim C9, amended. \<open>runToolPipeline\<close> catches every exception raised in its \<open>try\<close>
  block, in particular every exception thrown by a stage. With a progress callback that is
  absent or returns normally it never propagates an exception: it always returns a result.
  Whenever it returns after a throw in the \<open>try\<close> block, the result has \<open>success = false\<close>,
  the message of the exception in \<open>error\<close>, and \<open>revisionCount\<close> and \<open>revisionHistory\<close> as
  they stood at the throw; after a throw of an agent these are the values accumulated up
  to that call. An exception reaches the caller only when the \<open>try\<close> block has thrown and
  the callback throws while the \<open>catch\<close> clause reports the failure.
\<close>

theorem runToolPipeline_catches:
  "(returns_normally onProgress \<longrightarrow>
      (\<exists>r. fst (runToolPipeline ag mx input onProgress w) = Inr r)) \<and>
   (\<forall>r. fst (runToolPipeline ag mx input onProgress w) = Inr r \<longrightarrow>
      (\<forall>e s. try_block ag onProgress mx input (initial w) = (Inl e, s) \<longrightarrow>
         r = \<lparr>success = False, toolHtml = None, toolName = None, toolSlug = None,
              toolDescription = None, res_category = None, qaReport = None,
              revisionCount = var_revisionCount s, revisionHistory = var_revisionHistory s,
              spec = None, error = Some (message_of e)\<rparr>) \<and>
      (\<forall>c e. (c, Some e) \<in> set (calls (snd (runToolPipeline ag mx input onProgress w))) \<longrightarrow>
         success r = False \<and> error r = Some (message_of e) \<and>
         revisionCount r = fst (accumulated c) \<and>
         length (revisionHistory r) = snd (accumulated c))) \<and>
   (\<forall>e'. fst (runToolPipeline ag mx input onProgress w) = Inl e' \<longrightarrow>
      (\<exists>e s. try_block ag onProgress mx input (initial w) = (Inl e, s) \<and>
         fst (progress onProgress Failed (S ''Pipeline error: '' # message_of e)
                None None None s) = Inl e'))"
proof -
  let ?run = "runToolPipeline ag mx input onProgress w"
  have A: "\<exists>r. fst ?run = Inr r" if "returns_normally onProgress"
    using run_returns [OF that] by blast
  have B: "r = \<lparr>success = False, toolHtml = None, toolName = None, toolSlug = None,
              toolDescription = None, res_category = None, qaReport = None,
              revisionCount = var_revisionCount s, revisionHistory = var_revisionHistory s,
              spec = None, error = Some (message_of e)\<rparr>"
    if "fst ?run = Inr r" "try_block ag onProgress mx input (initial w) = (Inl e, s)" for r e s
    using that catch_block_returns [of onProgress e s r] by (simp add: runToolPipeline_def)
  have C: "success r = False \<and> error r = Some (message_of e) \<and>
         revisionCount r = fst (accumulated c) \<and>
         length (revisionHistory r) = snd (accumulated c)"
    if "fst ?run = Inr r" "(c, Some e) \<in> set (calls (snd ?run))" for r c e
  proof -
    from run_thrown [OF that(2)] obtain s where
      t: "try_block ag onProgress mx input (initial w) = (Inl e, s)" and
      "var_revisionCount s = fst (accumulated c)"
      "length (var_revisionHistory s) = snd (accumulated c)" by blast
    with B [OF that(1) t] show ?thesis by simp
  qed
  have D: "\<exists>e s. try_block ag onProgress mx input (initial w) = (Inl e, s) \<and>
         fst (progress onProgress Failed (S ''Pipeline error: '' # message_of e)
                None None None s) = Inl e'"
    if "fst ?run = Inl e'" for e'
    using run_throws [OF that] .
  from A B C D show ?thesis by blast
qed

theorem runToolPipeline_catches_witness:
  "returns_normally (None :: unit ProgressCallback option) \<and>
   fst (try_block qa_unavailable None 3 sample_input (initial ())) =
     Inl (Error [S ''QA failed to validate tool: Error: timeout'']) \<and>
   (CallQA 1, Some (Error [S ''QA failed to validate tool: Error: timeout''])) \<in>
      set (calls (snd (runToolPipeline qa_unavailable 3 sample_input None ()))) \<and>
   (\<exists>r. fst (runToolPipeline qa_unavailable 3 sample_input None ()) = Inr r \<and>
        success r = False \<and>
        error r = Some [S ''QA failed to validate tool: Error: timeout''] \<and>
        revisionCount r = 1 \<and> length (revisionHistory r) = 0) \<and>
   fst (runToolPipeline qa_unavailable 3 sample_input (Some closed_sink) ()) =
     Inl (Error [S ''write after end'']) \<and>
   (\<exists>e s. try_block qa_unavailable (Some closed_sink) 3 sample_input (initial ()) = (Inl e, s) \<and>
        fst (progress (Some closed_sink) Failed (S ''Pipeline error: '' # message_of e)
               None None None s) = Inl (Error [S ''write after end'']))"
proof -
  let ?e = "Error [S ''QA failed to validate tool: Error: timeout'']"
  have n: "returns_normally (None :: unit ProgressCallback option)"
    by (simp add: returns_normally_def)
  have m: "(CallQA 1, Some ?e) \<in>
      set (calls (snd (runToolPipeline qa_unavailable 3 sample_input None ())))"
    by (simp add: qa_unavailable_run)
  note calm = runToolPipeline_catches [of None qa_unavailable 3 sample_input "()"]
  note loud = runToolPipeline_catches [of "Some closed_sink" qa_unavailable 3 sample_input "()"]
  from calm n obtain r where
    r: "fst (runToolPipeline qa_unavailable 3 sample_input None ()) = Inr r" by blast
  with calm m have "success r = False \<and> error r = Some (message_of ?e) \<and>
        revisionCount r = fst (accumulated (CallQA 1)) \<and>
        length (revisionHistory r) = snd (accumulated (CallQA 1))" by blast
  with r have 1: "\<exists>r. fst (runToolPipeline qa_unavailable 3 sample_input None ()) = Inr r \<and>
        success r = False \<and>
        error r = Some [S ''QA failed to validate tool: Error: timeout''] \<and>
        revisionCount r = 1 \<and> length (revisionHistory r) = 0" by simp
  from loud qa_unavailable_closed_sink_run(1)
  have 2: "\<exists>e s. try_block qa_unavailable (Some closed_sink) 3 sample_input (initial ()) = (Inl e, s) \<and>
        fst (progress (Some closed_sink) Failed (S ''Pipeline error: '' # message_of e)
               None None None s) = Inl (Error [S ''write after end''])" by blast
  from n m 1 2 qa_unavailable_run(3) qa_unavailable_closed_sink_run(1) show ?thesis by simp
qed

end
